theory Spec2Isabelle
  imports Complex_Main "HOL-Library.Sublist"
begin

section \<open>Python values\<close>

text \<open>
  A Python \<open>str\<close> is a sequence of Unicode code points; it is modelled as the list of
  its code points. \<open>str\<close> turns an ASCII literal into such a list.
\<close>

type_synonym pystr = "nat list"

definition str :: "string \<Rightarrow> pystr" where
  "str s = map of_char s"

text \<open>
  Exceptions are values. \<open>IndexError\<close> is the one exception the program's own
  expressions raise (\<open>xs[0]\<close> on an empty list); \<open>Raised n\<close> is an exception of
  class \<open>n\<close> raised inside a call into a library (\<open>requests\<close>, \<open>word2word\<close>,
  \<open>deep_translator\<close>).
\<close>

datatype error = IndexError | Raised string

text \<open>
  A \<open>dict\<close> keeps its keys in insertion order and holds each key once. It is modelled as
  the list of its items in that order. \<open>d[k] = v\<close> replaces the value of a key that is
  present, where it stands, and appends a new key at the end.
\<close>

type_synonym ('k, 'v) dict = "('k \<times> 'v) list"

fun dict_set :: "('k, 'v) dict \<Rightarrow> 'k \<Rightarrow> 'v \<Rightarrow> ('k, 'v) dict" where
  "dict_set [] k v = [(k, v)]"
| "dict_set ((k', v') # d) k v =
     (if k' = k then (k', v) # d else (k', v') # dict_set d k v)"

text \<open>
  A slice \<open>xs[:stop]\<close>: the whole list for \<open>None\<close>, the first \<open>stop\<close> elements for
  a stop that is not negative, and all but the last \<open>-stop\<close> elements for a negative one.
\<close>

definition slice_upto :: "'a list \<Rightarrow> int option \<Rightarrow> 'a list" where
  "slice_upto xs stop =
     (case stop of
        None \<Rightarrow> xs
      | Some n \<Rightarrow> if 0 \<le> n then take (nat n) xs else take (nat (int (length xs) + n)) xs)"

text \<open>
  \<open>sorted(xs, key=f, reverse=True)\<close>: CPython reverses the list, sorts it with its stable
  ascending sort, and reverses the result, so that elements with equal keys keep the
  order they had in \<open>xs\<close>.
\<close>

definition sorted_reverse :: "('a \<Rightarrow> 'b::linorder) \<Rightarrow> 'a list \<Rightarrow> 'a list" where
  "sorted_reverse f xs = rev (sort_key f (rev xs))"

section \<open>String operations of Python and of the libraries\<close>

text \<open>
  \<open>str.splitlines()\<close>: the text is cut at every line boundary (line feed, carriage
  return, a carriage return and line feed pair taken as one, vertical tab, form feed,
  the separators U+001C to U+001E, U+0085, U+2028 and U+2029). The boundaries are
  dropped, and no empty last line is added when the text ends with one.
\<close>

definition is_linebreak :: "nat \<Rightarrow> bool" where
  "is_linebreak c \<longleftrightarrow> c \<in> {0x0A, 0x0B, 0x0C, 0x0D, 0x1C, 0x1D, 0x1E, 0x85, 0x2028, 0x2029}"

fun splitlines_from :: "pystr \<Rightarrow> pystr \<Rightarrow> pystr list" where
  "splitlines_from cur [] = (if cur = [] then [] else [rev cur])"
| "splitlines_from cur (c # cs) =
     (if c = 0x0D \<and> cs \<noteq> [] \<and> hd cs = 0x0A then rev cur # splitlines_from [] (tl cs)
      else if is_linebreak c then rev cur # splitlines_from [] cs
      else splitlines_from (c # cur) cs)"

definition splitlines :: "pystr \<Rightarrow> pystr list" where
  "splitlines s = splitlines_from [] s"

text \<open>
  \<open>str.split()\<close> with no argument: the maximal runs of characters that are not white
  space, in order. White space is what \<open>str.isspace\<close> accepts.
\<close>

definition isspace :: "nat \<Rightarrow> bool" where
  "isspace c \<longleftrightarrow>
     (0x09 \<le> c \<and> c \<le> 0x0D) \<or> (0x1C \<le> c \<and> c \<le> 0x20) \<or> c = 0x85 \<or> c = 0xA0 \<or>
     c = 0x1680 \<or> (0x2000 \<le> c \<and> c \<le> 0x200A) \<or> c = 0x2028 \<or> c = 0x2029 \<or>
     c = 0x202F \<or> c = 0x205F \<or> c = 0x3000"

fun split_from :: "pystr \<Rightarrow> pystr \<Rightarrow> pystr list" where
  "split_from cur [] = (if cur = [] then [] else [rev cur])"
| "split_from cur (c # cs) =
     (if isspace c then (if cur = [] then split_from [] cs else rev cur # split_from [] cs)
      else split_from (c # cur) cs)"

definition split :: "pystr \<Rightarrow> pystr list" where
  "split s = split_from [] s"

text \<open>
  \<open>Levenshtein.ratio\<close> belongs to the \<open>Levenshtein\<close> package, not to this
  repository. The definition follows the package: with \<open>lensum\<close> the sum of the two
  lengths, the ratio is \<open>1.0\<close> when \<open>lensum\<close> is zero and
  \<open>(lensum - ldist) / lensum\<close> otherwise, where \<open>ldist\<close> is the edit distance in
  which an insertion and a deletion cost 1 and a substitution costs 2 (the package's
  documentation calls the result the normalized indel similarity).

  \<open>edit_distance c\<close> is the edit distance with substitution cost \<open>c\<close>: the
  Levenshtein distance for \<open>c = 1\<close>, the distance \<open>ratio\<close> uses for \<open>c = 2\<close>.
\<close>

fun edit_distance :: "nat \<Rightarrow> 'a list \<Rightarrow> 'a list \<Rightarrow> nat" where
  "edit_distance c [] ys = length ys"
| "edit_distance c (x # xs) [] = Suc (length xs)"
| "edit_distance c (x # xs) (y # ys) =
     min (min (Suc (edit_distance c xs (y # ys))) (Suc (edit_distance c (x # xs) ys)))
         ((if x = y then 0 else c) + edit_distance c xs ys)"

definition ratio :: "'a list \<Rightarrow> 'a list \<Rightarrow> rat" where
  "ratio a b =
     (let lensum = length a + length b
      in if lensum = 0 then 1
         else of_nat (lensum - edit_distance 2 a b) / of_nat lensum)"

text \<open>
  The length of a longest common subsequence of two lists, by the usual recursion. It
  gives a second reading of \<open>ratio\<close>: twice this length over the sum of the lengths.
\<close>

fun lcs :: "'a list \<Rightarrow> 'a list \<Rightarrow> nat" where
  "lcs [] ys = 0"
| "lcs (x # xs) [] = 0"
| "lcs (x # xs) (y # ys) =
     max (max (lcs xs (y # ys)) (lcs (x # xs) ys)) ((if x = y then 1 else 0) + lcs xs ys)"

section \<open>The Word Source: \<open>fetch_top_words\<close>\<close>

text \<open>
  The four functions of the script are decorated with \<open>st.cache_data\<close>, which keeps
  the result of a call for the next call with the same arguments. Each function is
  modelled without the cache, as a function of its arguments and of the library calls it
  makes.
\<close>

text \<open>
  \<open>requests_get url\<close> stands for \<open>requests.get(url).text\<close>: the text of the response,
  or the exception the request raises. The word list is built by
  \<^verbatim>\<open>[line.split()[0] for line in response.text.splitlines()[:buffer_count]]\<close>
  where \<open>line.split()[0]\<close> raises \<open>IndexError\<close> on a line with no token.
\<close>

definition base_url :: string where
  "base_url = ''https://raw.githubusercontent.com/hermitdave/FrequencyWords/master/content/2016''"

definition words_url :: "string \<Rightarrow> string" where
  "words_url lang = base_url @ ''/'' @ lang @ ''/'' @ lang @ ''_50k.txt''"

fun first_tokens :: "pystr list \<Rightarrow> error + pystr list" where
  "first_tokens [] = Inr []"
| "first_tokens (line # lines) =
     (case split line of
        [] \<Rightarrow> Inl IndexError
      | w # _ \<Rightarrow> (case first_tokens lines of Inl e \<Rightarrow> Inl e | Inr ws \<Rightarrow> Inr (w # ws)))"

definition get_words ::
  "(string \<Rightarrow> error + pystr) \<Rightarrow> int option \<Rightarrow> string \<Rightarrow> error + pystr list" where
  "get_words requests_get buffer_count lang =
     (case requests_get (words_url lang) of
        Inl e \<Rightarrow> Inl e
      | Inr response_text \<Rightarrow> first_tokens (slice_upto (splitlines response_text) buffer_count))"

definition fetch_top_words ::
  "(string \<Rightarrow> error + pystr) \<Rightarrow> string \<Rightarrow> string \<Rightarrow> int option \<Rightarrow> error + pystr list" where
  "fetch_top_words requests_get language fallback buffer_count =
     (case get_words requests_get buffer_count language of
        Inl e \<Rightarrow> Inl e
      | Inr words \<Rightarrow>
          if words \<noteq> [] then Inr words
          else (case get_words requests_get buffer_count fallback of
                  Inl e \<Rightarrow> Inl e
                | Inr words' \<Rightarrow> Inr (if words' \<noteq> [] then words' else [])))"

section \<open>The Translator: \<open>get_translations\<close>\<close>

text \<open>
  \<open>Word2word lang_to_learn native_lang\<close> stands for the constructor of the lexicon: it
  returns the lookup \<open>learn2native\<close> or raises. A lookup returns the list of candidate
  translations or raises; \<open>learn2native(word)[0]\<close> raises \<open>IndexError\<close> on an empty
  list. The \<open>try\<close> of the loop body catches every exception of the lookup and of the
  index (\<open>except Exception\<close>; an interrupt of the interpreter is not an exception of
  the model) and stores \<open>None\<close>; the constructor is called before the loop, outside
  any \<open>try\<close>.
\<close>

definition first_candidate :: "error + 't list \<Rightarrow> 't option" where
  "first_candidate r = (case r of Inl e \<Rightarrow> None | Inr [] \<Rightarrow> None | Inr (t # _) \<Rightarrow> Some t)"

fun translations_loop ::
  "('w \<Rightarrow> error + 't list) \<Rightarrow> 'w list \<Rightarrow> ('w, 't option) dict \<Rightarrow> ('w, 't option) dict" where
  "translations_loop learn2native [] translations = translations"
| "translations_loop learn2native (word # top_words) translations =
     translations_loop learn2native top_words
       (dict_set translations word (first_candidate (learn2native word)))"

definition get_translations ::
  "(string \<Rightarrow> string \<Rightarrow> error + ('w \<Rightarrow> error + 't list)) \<Rightarrow> 'w list \<Rightarrow> string \<Rightarrow> string
     \<Rightarrow> error + ('w, 't option) dict" where
  "get_translations Word2word top_words lang_to_learn native_lang =
     (case Word2word lang_to_learn native_lang of
        Inl e \<Rightarrow> Inl e
      | Inr learn2native \<Rightarrow> Inr (translations_loop learn2native top_words []))"

section \<open>The Similarity Scorer: \<open>get_similarity_scores\<close>\<close>

text \<open>
  Line 76 of the script:
  \<^verbatim>\<open>word: ratio(unidecode(word.lower()), unidecode(translations[word]).lower())\<close>
  \<open>lower\<close> stands for \<open>str.lower\<close> and \<open>unidecode\<close> for the function of the
  \<open>unidecode\<close> package. The first argument of \<open>ratio\<close> is the word, lower-cased and then
  transliterated; the second is the translation, transliterated and then lower-cased.
  The comprehension runs through the keys in order, skips a key whose value is \<open>None\<close>
  and adds the others with their score; a dict holds each key once, so
  \<open>translations[word]\<close> is the value that stands with \<open>word\<close>.
\<close>

definition normalized_word :: "('a list \<Rightarrow> 'a list) \<Rightarrow> ('a list \<Rightarrow> 'a list) \<Rightarrow> 'a list \<Rightarrow> 'a list" where
  "normalized_word lower unidecode word = unidecode (lower word)"

definition normalized_translation :: "('a list \<Rightarrow> 'a list) \<Rightarrow> ('a list \<Rightarrow> 'a list) \<Rightarrow> 'a list \<Rightarrow> 'a list" where
  "normalized_translation lower unidecode translation = lower (unidecode translation)"

fun get_similarity_scores ::
  "('a list \<Rightarrow> 'a list) \<Rightarrow> ('a list \<Rightarrow> 'a list) \<Rightarrow> ('a list, 'a list option) dict
     \<Rightarrow> ('a list, rat) dict" where
  "get_similarity_scores lower unidecode [] = []"
| "get_similarity_scores lower unidecode ((word, None) # translations) =
     get_similarity_scores lower unidecode translations"
| "get_similarity_scores lower unidecode ((word, Some translation) # translations) =
     (word, ratio (normalized_word lower unidecode word)
                  (normalized_translation lower unidecode translation))
       # get_similarity_scores lower unidecode translations"

section \<open>The Meaning Enricher: \<open>get_meanings\<close>\<close>

text \<open>
  \<open>GoogleTranslator src_lang dest_lang word\<close> stands for
  \<^verbatim>\<open>GoogleTranslator(source=src_lang, target=dest_lang).translate(word)\<close>,
  the translated text or the exception raised. The bare \<open>except:\<close> of the loop body
  catches every exception and stores the string \<open>"[No translation]"\<close>.
\<close>

definition no_translation :: pystr where
  "no_translation = str ''[No translation]''"

fun meanings_loop :: "('w \<Rightarrow> error + pystr) \<Rightarrow> 'w list \<Rightarrow> ('w, pystr) dict \<Rightarrow> ('w, pystr) dict" where
  "meanings_loop translate [] meanings = meanings"
| "meanings_loop translate (word # words) meanings =
     meanings_loop translate words
       (dict_set meanings word
          (case translate word of Inl e \<Rightarrow> no_translation | Inr translated \<Rightarrow> translated))"

definition get_meanings ::
  "(string \<Rightarrow> string \<Rightarrow> 'w \<Rightarrow> error + pystr) \<Rightarrow> 'w list \<Rightarrow> string \<Rightarrow> string \<Rightarrow> ('w, pystr) dict" where
  "get_meanings GoogleTranslator words src_lang dest_lang =
     meanings_loop (GoogleTranslator src_lang dest_lang) words []"

section \<open>The ranking step and the script\<close>

text \<open>
  Lines 95 to 100 of the script:
  \<^verbatim>\<open>valid_translations = {word: trans for word, trans in translations.items() if trans is not None}\<close>
  \<^verbatim>\<open>sorted_matches = sorted(similarity_scores.items(), key=lambda x: x[1], reverse=True)\<close>
  \<^verbatim>\<open>top_matches = sorted_matches[:word_count]\<close>
  \<^verbatim>\<open>selected_words = [k for k, _ in top_matches]\<close>
  A score is a Python float, the quotient of two integers; it is modelled by that
  quotient as a rational number.
\<close>

definition valid_translations :: "('w, 't option) dict \<Rightarrow> ('w, 't option) dict" where
  "valid_translations translations = filter (\<lambda>(word, t). t \<noteq> None) translations"

definition sorted_matches :: "('w, rat) dict \<Rightarrow> ('w \<times> rat) list" where
  "sorted_matches similarity_scores = sorted_reverse snd similarity_scores"

definition top_matches :: "('w, rat) dict \<Rightarrow> int \<Rightarrow> ('w \<times> rat) list" where
  "top_matches similarity_scores word_count =
     slice_upto (sorted_matches similarity_scores) (Some word_count)"

definition selected_words :: "('w \<times> rat) list \<Rightarrow> 'w list" where
  "selected_words matches = map fst matches"

text \<open>
  The script from line 91 on, up to the rendering: what it has computed when it reaches
  the flashcards, or the exception that ended it. Nothing is computed (\<open>None\<close>) when
  \<open>if lang_to_learn and native_lang\<close> finds an empty language code.
  \<open>fallback_lang\<close> is \<open>"en"\<close> and the word list is fetched with \<open>buffer_count=100\<close>.
\<close>

record flashcards =
  fc_fetched_words :: "pystr list"
  fc_translations :: "(pystr, pystr option) dict"
  fc_similarity_scores :: "(pystr, rat) dict"
  fc_top_matches :: "(pystr \<times> rat) list"
  fc_selected_meanings :: "(pystr, pystr) dict"

definition fallback_lang :: string where
  "fallback_lang = ''en''"

definition build_flashcards ::
  "(string \<Rightarrow> error + pystr) \<Rightarrow> (string \<Rightarrow> string \<Rightarrow> error + (pystr \<Rightarrow> error + pystr list))
     \<Rightarrow> (string \<Rightarrow> string \<Rightarrow> pystr \<Rightarrow> error + pystr) \<Rightarrow> (pystr \<Rightarrow> pystr) \<Rightarrow> (pystr \<Rightarrow> pystr)
     \<Rightarrow> string \<Rightarrow> string \<Rightarrow> int \<Rightarrow> error + flashcards option" where
  "build_flashcards requests_get Word2word GoogleTranslator lower unidecode
       lang_to_learn native_lang word_count =
     (if lang_to_learn = [] \<or> native_lang = [] then Inr None
      else
       (case fetch_top_words requests_get lang_to_learn fallback_lang (Some 100) of
          Inl e \<Rightarrow> Inl e
        | Inr fetched \<Rightarrow>
            (case get_translations Word2word fetched lang_to_learn native_lang of
               Inl e \<Rightarrow> Inl e
             | Inr translation_map \<Rightarrow>
                 let scores =
                       get_similarity_scores lower unidecode (valid_translations translation_map);
                     top = top_matches scores word_count
                 in Inr (Some \<lparr>fc_fetched_words = fetched, fc_translations = translation_map,
                          fc_similarity_scores = scores, fc_top_matches = top,
                          fc_selected_meanings =
                            get_meanings GoogleTranslator (selected_words top)
                              lang_to_learn native_lang\<rparr>))))"

section \<open>Concrete inputs\<close>

text \<open>
  \<open>str.lower\<close> and \<open>unidecode\<close> on the characters this development evaluates them
  on. In the ASCII range \<open>str.lower\<close> maps \<open>A\<close> to \<open>Z\<close> onto \<open>a\<close> to \<open>z\<close> and
  \<open>unidecode\<close> changes nothing. The Devanagari signs U+092E (letter MA), U+0947 (vowel
  sign E) and U+0902 (anusvara) have no case, so \<open>str.lower\<close> leaves them as they are,
  and the table of \<open>unidecode\<close> for their block gives \<open>m\<close>, \<open>e\<close> and the capital
  \<open>N\<close> for them. No other character is in the two tables below (\<open>unidecode_char\<close>
  gives the empty string, which is what the package gives for a character it has no entry
  for); the theorems that name \<open>lower_model\<close> and \<open>unidecode_model\<close> apply them to
  strings of the characters above only.
\<close>

definition lower_char :: "nat \<Rightarrow> nat" where
  "lower_char c = (if 0x41 \<le> c \<and> c \<le> 0x5A then c + 0x20 else c)"

definition lower_model :: "pystr \<Rightarrow> pystr" where
  "lower_model s = map lower_char s"

definition unidecode_char :: "nat \<Rightarrow> pystr" where
  "unidecode_char c =
     (if c < 0x80 then [c]
      else if c = 0x092E then str ''m''
      else if c = 0x0947 then str ''e''
      else if c = 0x0902 then str ''N''
      else [])"

definition unidecode_model :: "pystr \<Rightarrow> pystr" where
  "unidecode_model s = concat (map unidecode_char s)"

text \<open>The Hindi word U+092E U+0947 U+0902 ("in"), one of the most frequent of the language.\<close>

definition hindi_word :: pystr where
  "hindi_word = [0x092E, 0x0947, 0x0902]"


text \<open>
  A score that is written with two decimals, as the script prints it (\<open>{score:.2f}\<close>):
  \<open>shown_as s v\<close> holds when the score \<open>s\<close> is present and is within half a hundredth
  of \<open>v\<close>.
\<close>

definition shown_as :: "rat option \<Rightarrow> rat \<Rightarrow> bool" where
  "shown_as s v = (case s of None \<Rightarrow> False | Some x \<Rightarrow> \<bar>x - v\<bar> \<le> 1 / 200)"

text \<open>
  Lexicons: the one of the specification's scenario, with three entries, and the same
  with no entry for \<open>auto\<close>. A word that has no entry raises \<open>KeyError\<close>, as
  \<open>word2word\<close> does. \<open>Word2word_unavailable\<close> is a constructor that finds no lexicon
  for the language pair.
\<close>

definition scenario_words :: "pystr list" where
  "scenario_words = [str ''haus'', str ''auto'', str ''buch'']"

definition scenario_lexicon :: "pystr \<Rightarrow> error + pystr list" where
  "scenario_lexicon word =
     (if word = str ''haus'' then Inr [str ''house'']
      else if word = str ''auto'' then Inr [str ''car'']
      else if word = str ''buch'' then Inr [str ''book'']
      else Inl (Raised ''KeyError''))"

definition lexicon_without_auto :: "pystr \<Rightarrow> error + pystr list" where
  "lexicon_without_auto word =
     (if word = str ''haus'' then Inr [str ''house'']
      else if word = str ''buch'' then Inr [str ''book'']
      else Inl (Raised ''KeyError''))"

definition Word2word_scenario :: "string \<Rightarrow> string \<Rightarrow> error + (pystr \<Rightarrow> error + pystr list)" where
  "Word2word_scenario lang_to_learn native_lang = Inr scenario_lexicon"

definition Word2word_without_auto :: "string \<Rightarrow> string \<Rightarrow> error + (pystr \<Rightarrow> error + pystr list)" where
  "Word2word_without_auto lang_to_learn native_lang = Inr lexicon_without_auto"

definition Word2word_unavailable :: "string \<Rightarrow> string \<Rightarrow> error + (pystr \<Rightarrow> error + pystr list)" where
  "Word2word_unavailable lang_to_learn native_lang = Inl (Raised ''Exception'')"

text \<open>
  Responses of the frequency-list server: a request that fails, a response whose second
  line is empty, a server that has an empty list for German and a list of two words
  for the fallback language, a server whose lists are all empty, and the list of the
  scenario.
\<close>

definition requests_get_failing :: "string \<Rightarrow> error + pystr" where
  "requests_get_failing url = Inl (Raised ''ConnectionError'')"

definition requests_get_blank_line :: "string \<Rightarrow> error + pystr" where
  "requests_get_blank_line url = Inr (str ''haus 10'' @ [0x0A, 0x0A] @ str ''auto 5'')"

definition requests_get_german_empty :: "string \<Rightarrow> error + pystr" where
  "requests_get_german_empty url =
     (if url = words_url ''de'' then Inr [] else Inr (str ''the 100'' @ [0x0A] @ str ''you 90''))"

definition requests_get_empty :: "string \<Rightarrow> error + pystr" where
  "requests_get_empty url = Inr []"

definition requests_get_scenario :: "string \<Rightarrow> error + pystr" where
  "requests_get_scenario url =
     Inr (str ''haus 30'' @ [0x0A] @ str ''auto 20'' @ [0x0A] @ str ''buch 10'' @ [0x0A])"

text \<open>Translation services: one that fails on every word, one that knows \<open>haus\<close> only.\<close>

definition GoogleTranslator_failing :: "string \<Rightarrow> string \<Rightarrow> pystr \<Rightarrow> error + pystr" where
  "GoogleTranslator_failing src_lang dest_lang word = Inl (Raised ''RequestError'')"

definition GoogleTranslator_house_only :: "string \<Rightarrow> string \<Rightarrow> pystr \<Rightarrow> error + pystr" where
  "GoogleTranslator_house_only src_lang dest_lang word =
     (if word = str ''haus'' then Inr (str ''house'') else Inl (Raised ''TranslationNotFound''))"

text \<open>
  What the script has computed for the three words of the scenario when the lexicon has
  no entry for \<open>auto\<close> and the translation service knows \<open>haus\<close> only.
\<close>

definition flashcards_without_auto :: flashcards where
  "flashcards_without_auto =
     \<lparr>fc_fetched_words = [str ''haus'', str ''auto'', str ''buch''],
      fc_translations = [(str ''haus'', Some (str ''house'')), (str ''auto'', None),
                         (str ''buch'', Some (str ''book''))],
      fc_similarity_scores = [(str ''haus'', 2 / 3), (str ''buch'', 1 / 4)],
      fc_top_matches = [(str ''haus'', 2 / 3), (str ''buch'', 1 / 4)],
      fc_selected_meanings = [(str ''haus'', str ''house''), (str ''buch'', str ''[No translation]'')]\<rparr>"

text \<open>
  What the amended claim on the Word Source speaks of. A line is blank when it has white
  space only; the first token of a line is what stands between its leading white space
  and the next white space. \<open>lines_read\<close> are the lines of a response that the
  slice keeps, \<open>words_of\<close> their first tokens.
\<close>

definition blank :: "pystr \<Rightarrow> bool" where
  "blank line = list_all isspace line"

definition first_token :: "pystr \<Rightarrow> pystr" where
  "first_token line = takeWhile (\<lambda>c. \<not> isspace c) (dropWhile isspace line)"

definition lines_read :: "pystr \<Rightarrow> int option \<Rightarrow> pystr list" where
  "lines_read response_text buffer_count = slice_upto (splitlines response_text) buffer_count"

definition no_blank_line :: "pystr \<Rightarrow> int option \<Rightarrow> bool" where
  "no_blank_line response_text buffer_count =
     list_all (\<lambda>line. \<not> blank line) (lines_read response_text buffer_count)"

definition words_of :: "pystr \<Rightarrow> int option \<Rightarrow> pystr list" where
  "words_of response_text buffer_count = map first_token (lines_read response_text buffer_count)"

section \<open>Facts about the Python values\<close>

lemma sorted_reverse_descending:
  "sorted_wrt (\<lambda>x y. f y \<le> f x) (sorted_reverse f xs)"
proof -
  have "sorted (map f (sort_key f (rev xs)))"
    by (rule sorted_sort_key)
  then have "sorted_wrt (\<lambda>x y. f x \<le> f y) (sort_key f (rev xs))"
    by (simp add: sorted_map)
  then show ?thesis
    by (simp add: sorted_reverse_def sorted_wrt_rev)
qed

lemma length_sorted_reverse: "length (sorted_reverse f xs) = length xs"
  by (simp add: sorted_reverse_def)

lemma set_sorted_reverse: "set (sorted_reverse f xs) = set xs"
  by (simp add: sorted_reverse_def)

lemma distinct_sorted_reverse: "distinct (sorted_reverse f xs) = distinct xs"
  by (simp add: sorted_reverse_def)

lemma sorted_reverse_stable:
  "filter (\<lambda>y. f y = k) (sorted_reverse f xs) = filter (\<lambda>y. f y = k) xs"
  by (simp add: sorted_reverse_def sort_key_stable flip: rev_filter)

section \<open>Facts about dictionaries and the two loops\<close>

lemma keys_dict_set: "fst ` set (dict_set d k v) = insert k (fst ` set d)"
  by (induction d k v rule: dict_set.induct) (auto intro: rev_image_eqI)

lemma map_fst_dict_set:
  "map fst (dict_set d k v) = (if k \<in> fst ` set d then map fst d else map fst d @ [k])"
  by (induction d k v rule: dict_set.induct) (auto intro: rev_image_eqI)

lemma distinct_dict_set: "distinct (map fst d) \<Longrightarrow> distinct (map fst (dict_set d k v))"
  by (simp add: map_fst_dict_set)

lemma map_of_dict_set: "map_of (dict_set d k v) = (map_of d)(k \<mapsto> v)"
  by (induction d k v rule: dict_set.induct) (auto simp: fun_eq_iff)

lemma keys_translations_loop:
  "fst ` set (translations_loop f ws d) = fst ` set d \<union> set ws"
  by (induction ws arbitrary: d) (simp_all add: keys_dict_set)

lemma distinct_translations_loop:
  "distinct (map fst d) \<Longrightarrow> distinct (map fst (translations_loop f ws d))"
  by (induction ws arbitrary: d) (simp_all add: distinct_dict_set)

lemma map_of_translations_loop:
  "map_of (translations_loop f ws d) w =
     (if w \<in> set ws then Some (first_candidate (f w)) else map_of d w)"
  by (induction ws arbitrary: d) (simp_all add: map_of_dict_set)

lemma keys_meanings_loop:
  "fst ` set (meanings_loop f ws d) = fst ` set d \<union> set ws"
  by (induction ws arbitrary: d) (simp_all add: keys_dict_set)

lemma distinct_meanings_loop:
  "distinct (map fst d) \<Longrightarrow> distinct (map fst (meanings_loop f ws d))"
  by (induction ws arbitrary: d) (simp_all add: distinct_dict_set)

lemma map_of_meanings_loop:
  "map_of (meanings_loop f ws d) w =
     (if w \<in> set ws
      then Some (case f w of Inl e \<Rightarrow> no_translation | Inr translated \<Rightarrow> translated)
      else map_of d w)"
  by (induction ws arbitrary: d) (simp_all add: map_of_dict_set)

lemma map_fst_get_similarity_scores:
  "map fst (get_similarity_scores l u d) = map fst (valid_translations d)"
  by (induction l u d rule: get_similarity_scores.induct) (simp_all add: valid_translations_def)

lemma get_similarity_scores_valid:
  "get_similarity_scores l u (valid_translations d) = get_similarity_scores l u d"
  by (induction l u d rule: get_similarity_scores.induct) (simp_all add: valid_translations_def)

lemma keys_valid_translations:
  "fst ` set (valid_translations d) \<subseteq> fst ` set d"
  by (auto simp: valid_translations_def)

lemma map_of_get_similarity_scores_None:
  "w \<notin> fst ` set d \<Longrightarrow> map_of (get_similarity_scores l u d) w = None"
proof -
  assume "w \<notin> fst ` set d"
  then have "w \<notin> fst ` set (valid_translations d)"
    using keys_valid_translations [of d] by blast
  then have "w \<notin> set (map fst (get_similarity_scores l u d))"
    by (simp add: map_fst_get_similarity_scores)
  then show ?thesis
    by (simp add: map_of_eq_None_iff)
qed

lemma map_of_get_similarity_scores:
  "distinct (map fst d) \<Longrightarrow>
   map_of (get_similarity_scores l u d) w =
     (case map_of d w of
        Some (Some t) \<Rightarrow> Some (ratio (normalized_word l u w) (normalized_translation l u t))
      | _ \<Rightarrow> None)"
proof (induction l u d rule: get_similarity_scores.induct)
  case (1 l u)
  then show ?case by simp
next
  case (2 l u word d)
  then have "map_of d word = None"
    by (simp add: map_of_eq_None_iff)
  with 2 show ?case
    by (simp add: map_of_get_similarity_scores_None)
next
  case (3 l u word t d)
  then show ?case by simp
qed

section \<open>Facts about \<open>ratio\<close>\<close>

lemma edit_distance_le: "edit_distance 2 a b \<le> length a + length b"
  by (induction "2::nat" a b rule: edit_distance.induct) (simp_all add: min_def)

lemma edit_distance_eq_0: "0 < c \<Longrightarrow> edit_distance c a b = 0 \<longleftrightarrow> a = b"
  by (induction c a b rule: edit_distance.induct) (auto simp: min_def)

lemma ratio_range: "0 \<le> ratio a b \<and> ratio a b \<le> 1"
  using edit_distance_le [of a b] by (simp add: ratio_def Let_def divide_le_eq)

lemma ratio_eq_1: "ratio a b = 1 \<longleftrightarrow> a = b"
proof
  assume "a = b"
  then show "ratio a b = 1"
    using edit_distance_eq_0 [of 2 a b] by (simp add: ratio_def Let_def)
next
  assume r: "ratio a b = 1"
  show "a = b"
  proof (cases "length a + length b = 0")
    case True
    then show ?thesis by simp
  next
    case False
    define n where "n = length a + length b"
    define k where "k = edit_distance 2 a b"
    from False have "ratio a b = of_nat (n - k) / of_nat n"
      unfolding ratio_def Let_def n_def k_def by (simp only: if_False)
    with r False have "(of_nat (n - k) :: rat) = of_nat n"
      by (simp add: n_def)
    then have "n - k = n"
      by (simp only: of_nat_eq_iff)
    with False have "k = 0"
      unfolding n_def by arith
    then show ?thesis
      using edit_distance_eq_0 [of 2 a b] by (simp add: k_def)
  qed
qed

lemma edit_distance_lcs: "edit_distance 2 a b + 2 * lcs a b = length a + length b"
  by (induction a b rule: lcs.induct) (auto simp: min_def max_def)

lemma lcs_upper: "subseq s a \<Longrightarrow> subseq s b \<Longrightarrow> length s \<le> lcs a b"
proof (induction a b arbitrary: s rule: lcs.induct)
  case (1 ys)
  then show ?case by simp
next
  case (2 x xs)
  then show ?case by simp
next
  case (3 x xs y ys)
  show ?case
  proof (cases s)
    case Nil
    then show ?thesis by simp
  next
    case (Cons z zs)
    show ?thesis
    proof (cases "z = x")
      case zx: True
      show ?thesis
      proof (cases "z = y")
        case True
        with zx Cons "3.prems" have "subseq zs xs" "subseq zs ys" "x = y"
          by simp_all
        with "3.IH"(3) [of zs] Cons show ?thesis
          by simp
      next
        case False
        with Cons "3.prems" have "subseq s ys"
          by simp
        with "3.IH"(2) [of s] "3.prems" show ?thesis
          by simp
      qed
    next
      case False
      with Cons "3.prems" have "subseq s xs"
        by simp
      with "3.IH"(1) [of s] "3.prems" show ?thesis
        by simp
    qed
  qed
qed

lemma lcs_attained: "\<exists>s. subseq s a \<and> subseq s b \<and> length s = lcs a b"
proof (induction a b rule: lcs.induct)
  case (1 ys)
  then show ?case by simp
next
  case (2 x xs)
  then show ?case by simp
next
  case (3 x xs y ys)
  consider (left) "lcs (x # xs) (y # ys) = lcs xs (y # ys)"
    | (right) "lcs (x # xs) (y # ys) = lcs (x # xs) ys"
    | (both) "lcs (x # xs) (y # ys) = (if x = y then 1 else 0) + lcs xs ys"
    by (simp only: lcs.simps) (metis max_def)
  then show ?case
  proof cases
    case left
    from "3.IH"(1) obtain s where "subseq s xs" "subseq s (y # ys)" "length s = lcs xs (y # ys)"
      by blast
    with left have "subseq s (x # xs) \<and> subseq s (y # ys) \<and> length s = lcs (x # xs) (y # ys)"
      by (simp only: list_emb_Cons simp_thms)
    then show ?thesis by blast
  next
    case right
    from "3.IH"(2) obtain s where "subseq s (x # xs)" "subseq s ys" "length s = lcs (x # xs) ys"
      by blast
    with right have "subseq s (x # xs) \<and> subseq s (y # ys) \<and> length s = lcs (x # xs) (y # ys)"
      by (simp only: list_emb_Cons simp_thms)
    then show ?thesis by blast
  next
    case both
    from "3.IH"(3) obtain s where s: "subseq s xs" "subseq s ys" "length s = lcs xs ys"
      by blast
    show ?thesis
    proof (cases "x = y")
      case True
      with s both have "subseq (x # s) (x # xs) \<and> subseq (x # s) (y # ys) \<and>
          length (x # s) = lcs (x # xs) (y # ys)"
        by simp
      then show ?thesis by blast
    next
      case False
      with s both have "subseq s (x # xs) \<and> subseq s (y # ys) \<and> length s = lcs (x # xs) (y # ys)"
        by (simp only: list_emb_Cons simp_thms if_False add_0)
      then show ?thesis by blast
    qed
  qed
qed

section \<open>The claims\<close>

subsection \<open>The ranked list\<close>

lemma sorted_matches_descending:
  "sorted_wrt (\<lambda>p q. snd q \<le> snd p) (sorted_matches d)"
  unfolding sorted_matches_def by (rule sorted_reverse_descending)

text \<open>
  Claim C2. For every similarity-score mapping and every requested count
  \<open>word_count\<close> that is not negative, the ranked list \<open>top_matches\<close> is sorted
  non-increasing by score and its length is the minimum of the count and the number of
  scored pairs. When there are no more scored pairs than the count, the ranked list is
  the whole sorted list: every pair is returned, none is added. The step raises nothing:
  sorting and slicing have no failing case.
\<close>

theorem top_matches_sorted_and_length:
  assumes "0 \<le> word_count"
  shows "sorted_wrt (\<lambda>p q. snd q \<le> snd p) (top_matches similarity_scores word_count) \<and>
         length (top_matches similarity_scores word_count)
           = min (nat word_count) (length similarity_scores) \<and>
         (int (length similarity_scores) \<le> word_count \<longrightarrow>
            top_matches similarity_scores word_count = sorted_matches similarity_scores \<and>
            set (top_matches similarity_scores word_count) = set similarity_scores)"
proof -
  have tm: "top_matches similarity_scores word_count
              = take (nat word_count) (sorted_matches similarity_scores)"
    using assms by (simp add: top_matches_def slice_upto_def)
  have len: "length (sorted_matches similarity_scores) = length similarity_scores"
    by (simp add: sorted_matches_def length_sorted_reverse)
  have "sorted_wrt (\<lambda>p q. snd q \<le> snd p) (top_matches similarity_scores word_count)"
    unfolding tm using sorted_matches_descending by (rule sorted_wrt_take)
  moreover have "length (top_matches similarity_scores word_count)
                   = min (nat word_count) (length similarity_scores)"
    by (simp add: tm len min.commute)
  moreover have "top_matches similarity_scores word_count = sorted_matches similarity_scores \<and>
       set (top_matches similarity_scores word_count) = set similarity_scores"
    if "int (length similarity_scores) \<le> word_count"
  proof -
    from that have "length (sorted_matches similarity_scores) \<le> nat word_count"
      by (simp add: len)
    then have "top_matches similarity_scores word_count = sorted_matches similarity_scores"
      by (simp add: tm)
    then show ?thesis
      by (simp add: sorted_matches_def set_sorted_reverse)
  qed
  ultimately show ?thesis by blast
qed

theorem top_matches_sorted_and_length_witness:
  "(0::int) \<le> 10 \<and>
   int (length [(str ''haus'', 2/3::rat), (str ''auto'', 2/7), (str ''buch'', 1/4)]) \<le> 10 \<and>
   sorted_wrt (\<lambda>p q. snd q \<le> snd p)
     (top_matches [(str ''haus'', 2/3), (str ''auto'', 2/7), (str ''buch'', 1/4)] 10) \<and>
   length (top_matches [(str ''haus'', 2/3), (str ''auto'', 2/7), (str ''buch'', 1/4)] 10) = 3 \<and>
   set (top_matches [(str ''haus'', 2/3), (str ''auto'', 2/7), (str ''buch'', 1/4)] 10)
     = {(str ''haus'', 2/3), (str ''auto'', 2/7), (str ''buch'', 1/4)}"
proof -
  have nonneg: "(0::int) \<le> 10"
    by simp
  have few: "int (length [(str ''haus'', 2/3::rat), (str ''auto'', 2/7), (str ''buch'', 1/4)]) \<le> 10"
    by simp
  note ranked = top_matches_sorted_and_length
    [OF nonneg, of "[(str ''haus'', 2/3), (str ''auto'', 2/7), (str ''buch'', 1/4)]"]
  have "length (top_matches [(str ''haus'', 2/3), (str ''auto'', 2/7), (str ''buch'', 1/4)] 10) = 3"
    using ranked [THEN conjunct2, THEN conjunct1] by simp
  moreover
  have "set (top_matches [(str ''haus'', 2/3), (str ''auto'', 2/7), (str ''buch'', 1/4)] 10)
          = {(str ''haus'', 2/3), (str ''auto'', 2/7), (str ''buch'', 1/4)}"
    using ranked [THEN conjunct2, THEN conjunct2, rule_format, OF few, THEN conjunct2] by simp
  moreover
  note ranked [THEN conjunct1]
  ultimately show ?thesis
    using nonneg few by blast
qed

text \<open>
  Pairs with equal scores keep, in the sorted list, the order they have in the
  similarity-score mapping, which is the order in which the words were fetched.
\<close>

theorem ties_keep_insertion_order:
  "filter (\<lambda>p. snd p = score) (sorted_matches similarity_scores)
     = filter (\<lambda>p. snd p = score) similarity_scores"
  unfolding sorted_matches_def by (rule sorted_reverse_stable)

subsection \<open>The similarity score\<close>

lemmas normalization_simps = str_def lower_model_def lower_char_def unidecode_model_def
  unidecode_char_def normalized_word_def normalized_translation_def




text \<open>
  Claim C3, at the input where the code departs from it. The Hindi word of
  \<open>hindi_word\<close>, paired with itself as its translation, has equal normal forms under
  any one normalization, and its score is \<open>2/3\<close>: the word side keeps the capital
  \<open>N\<close> that \<open>unidecode\<close> produces, the translation side lower-cases it.
\<close>

theorem identical_pair_scores_below_one:
  "map_of (get_similarity_scores lower_model unidecode_model [(hindi_word, Some hindi_word)])
      hindi_word = Some (2 / 3)"
  by (simp add: normalization_simps ratio_def hindi_word_def)

text \<open>
  Claim C4, at the input where the code departs from it. On the Hindi word of
  \<open>hindi_word\<close> the transformation applied to a word gives \<open>meN\<close> and the one applied
  to a translation gives \<open>men\<close>.
\<close>

theorem normalizations_differ:
  "normalized_word lower_model unidecode_model hindi_word = str ''meN'' \<and>
   normalized_translation lower_model unidecode_model hindi_word = str ''men'' \<and>
   normalized_word lower_model unidecode_model hindi_word
     \<noteq> normalized_translation lower_model unidecode_model hindi_word"
  by (simp add: normalization_simps hindi_word_def)

text \<open>
  What holds of the score for every \<open>lower\<close> and \<open>unidecode\<close>: it lies between 0 and
  1, and it is 1 exactly when the word, lower-cased and then transliterated, equals the
  translation, transliterated and then lower-cased.
\<close>

theorem score_range_and_exact_match:
  assumes "distinct (map fst translations)"
    and "map_of translations word = Some (Some translation)"
  shows "\<exists>score. map_of (get_similarity_scores lower unidecode translations) word = Some score \<and>
           0 \<le> score \<and> score \<le> 1 \<and>
           (score = 1 \<longleftrightarrow> unidecode (lower word) = lower (unidecode translation))"
  using assms
  by (simp add: map_of_get_similarity_scores normalized_word_def normalized_translation_def
      ratio_range ratio_eq_1)

theorem score_range_and_exact_match_witness:
  "distinct (map fst [(str ''Haus'', Some (str ''haus''))]) \<and>
   map_of [(str ''Haus'', Some (str ''haus''))] (str ''Haus'') = Some (Some (str ''haus'')) \<and>
   unidecode_model (lower_model (str ''Haus'')) = lower_model (unidecode_model (str ''haus'')) \<and>
   map_of (get_similarity_scores lower_model unidecode_model [(str ''Haus'', Some (str ''haus''))])
      (str ''Haus'') = Some 1"
  using score_range_and_exact_match
    [of "[(str ''Haus'', Some (str ''haus''))]" "str ''Haus''" "str ''haus''"
        lower_model unidecode_model]
  by (auto simp: normalization_simps)

text \<open>
  The score read through the longest common subsequence: \<open>ratio a b\<close> is twice the
  length of a longest common subsequence of \<open>a\<close> and \<open>b\<close> over the sum of their
  lengths, where \<open>lcs a b\<close> is the length of a common subsequence and no common
  subsequence is longer.
\<close>

theorem ratio_by_longest_common_subsequence:
  "ratio a b = (if a = [] \<and> b = [] then 1
                else 2 * of_nat (lcs a b) / of_nat (length a + length b)) \<and>
   (\<exists>s. subseq s a \<and> subseq s b \<and> length s = lcs a b) \<and>
   (\<forall>s. subseq s a \<and> subseq s b \<longrightarrow> length s \<le> lcs a b)"
proof -
  have "length a + length b - edit_distance 2 a b = 2 * lcs a b"
    using edit_distance_lcs [of a b] by arith
  then have "ratio a b = (if a = [] \<and> b = [] then 1
                else 2 * of_nat (lcs a b) / of_nat (length a + length b))"
    by (simp add: ratio_def Let_def)
  with lcs_attained [of a b] lcs_upper [of _ a b] show ?thesis
    by blast
qed

theorem ratio_by_longest_common_subsequence_witness:
  "subseq (str ''hus'') (str ''haus'') \<and> subseq (str ''hus'') (str ''house'') \<and>
   length (str ''hus'') \<le> lcs (str ''haus'') (str ''house'') \<and>
   lcs (str ''haus'') (str ''house'') = 3 \<and>
   ratio (str ''haus'') (str ''house'') = 2 / 3"
proof -
  have common: "subseq (str ''hus'') (str ''haus'') \<and> subseq (str ''hus'') (str ''house'')"
    by (simp add: str_def)
  have "lcs (str ''haus'') (str ''house'') = 3"
    by (simp add: str_def)
  with ratio_by_longest_common_subsequence [of "str ''haus''" "str ''house''"] common
  show ?thesis
    by (auto simp: str_def)
qed

subsection \<open>The scenario of the specification\<close>

text \<open>
  Claim C9, amended. For the word list \<open>haus\<close>, \<open>auto\<close>, \<open>buch\<close> and the lexicon
  that gives \<open>house\<close>, \<open>car\<close> and \<open>book\<close>, the scores are \<open>2/3\<close>, \<open>2/7\<close> and
  \<open>1/4\<close>, shown as 0.67, 0.29 and 0.25 (not 0.29 for \<open>buch\<close> and \<open>book\<close>), and
  the top 1 is the pair of \<open>haus\<close> and \<open>2/3\<close>.
\<close>

theorem scenario_scores:
  "get_translations Word2word_scenario scenario_words ''de'' ''en''
     = Inr [(str ''haus'', Some (str ''house'')), (str ''auto'', Some (str ''car'')),
            (str ''buch'', Some (str ''book''))] \<and>
   get_similarity_scores lower_model unidecode_model
       (valid_translations (translations_loop scenario_lexicon scenario_words []))
     = [(str ''haus'', 2 / 3), (str ''auto'', 2 / 7), (str ''buch'', 1 / 4)] \<and>
   shown_as (Some (2 / 3)) (67 / 100) \<and> shown_as (Some (2 / 7)) (29 / 100) \<and>
   shown_as (Some (1 / 4)) (25 / 100) \<and>
   top_matches
       (get_similarity_scores lower_model unidecode_model
          (valid_translations (translations_loop scenario_lexicon scenario_words []))) 1
     = [(str ''haus'', 2 / 3)]"
  by (simp add: normalization_simps ratio_def get_translations_def Word2word_scenario_def
      scenario_words_def scenario_lexicon_def first_candidate_def valid_translations_def
      top_matches_def sorted_matches_def sorted_reverse_def slice_upto_def shown_as_def)

text \<open>
  The score of \<open>buch\<close> and \<open>book\<close> is not shown as 0.29, as claim C9 states it.
\<close>

theorem scenario_buch_counterexample:
  "\<not> shown_as
       (map_of (get_similarity_scores lower_model unidecode_model
                  (valid_translations (translations_loop scenario_lexicon scenario_words [])))
          (str ''buch''))
       (29 / 100)"
  by (simp add: normalization_simps ratio_def scenario_words_def scenario_lexicon_def
      first_candidate_def valid_translations_def shown_as_def)

subsection \<open>The Word Source\<close>

lemma split_from_eq_Nil:
  "split_from cur s = [] \<longleftrightarrow> cur = [] \<and> list_all isspace s"
  by (induction s arbitrary: cur) auto

lemma hd_split_from:
  "cur \<noteq> [] \<or> \<not> list_all isspace s \<Longrightarrow>
   hd (split_from cur s) =
     (if cur = [] then first_token s else rev cur @ takeWhile (\<lambda>c. \<not> isspace c) s)"
  by (induction s arbitrary: cur) (auto simp: first_token_def)

lemma split_eq_Nil: "split line = [] \<longleftrightarrow> blank line"
  by (simp add: split_def blank_def split_from_eq_Nil)

lemma hd_split: "\<not> blank line \<Longrightarrow> hd (split line) = first_token line"
  using hd_split_from [of "[]" line] by (simp add: split_def blank_def)

lemma first_tokens_no_blank:
  "list_all (\<lambda>line. \<not> blank line) lines \<Longrightarrow> first_tokens lines = Inr (map first_token lines)"
proof (induction lines)
  case Nil
  then show ?case by simp
next
  case (Cons line lines)
  then have "split line \<noteq> []" and "hd (split line) = first_token line"
    by (simp_all add: split_eq_Nil hd_split)
  with Cons show ?case
    by (cases "split line") simp_all
qed

lemma get_words_no_blank:
  assumes "requests_get (words_url lang) = Inr response_text"
    and "no_blank_line response_text buffer_count"
  shows "get_words requests_get buffer_count lang = Inr (words_of response_text buffer_count)"
  using assms
  by (simp add: get_words_def no_blank_line_def words_of_def lines_read_def first_tokens_no_blank)

text \<open>
  Claim C6, amended. When the request for the language returns a response none of whose
  lines read is blank, and, if that response has no word, the request for the fallback
  language does too, the Word Source raises nothing and returns the words of the language
  when there are any and the words of the fallback language otherwise (an empty sequence
  when both are empty).
\<close>

theorem fetch_top_words_fallback:
  assumes "requests_get (words_url language) = Inr primary"
    and "no_blank_line primary buffer_count"
    and "words_of primary buffer_count = [] \<longrightarrow>
           requests_get (words_url fallback) = Inr secondary \<and>
           no_blank_line secondary buffer_count"
  shows "fetch_top_words requests_get language fallback buffer_count =
           Inr (if words_of primary buffer_count \<noteq> [] then words_of primary buffer_count
                else words_of secondary buffer_count)"
proof (cases "words_of primary buffer_count = []")
  case True
  with assms(3) have "get_words requests_get buffer_count fallback
                        = Inr (words_of secondary buffer_count)"
    by (simp add: get_words_no_blank)
  with True assms(1,2) show ?thesis
    by (simp add: fetch_top_words_def get_words_no_blank)
next
  case False
  with assms(1,2) show ?thesis
    by (simp add: fetch_top_words_def get_words_no_blank)
qed

theorem fetch_top_words_fallback_witness:
  "requests_get_german_empty (words_url ''de'') = Inr [] \<and>
   no_blank_line [] (Some 100) \<and>
   words_of [] (Some 100) = [] \<and>
   requests_get_german_empty (words_url ''en'') = Inr (str ''the 100'' @ [0x0A] @ str ''you 90'') \<and>
   no_blank_line (str ''the 100'' @ [0x0A] @ str ''you 90'') (Some 100) \<and>
   fetch_top_words requests_get_german_empty ''de'' ''en'' (Some 100)
     = Inr [str ''the'', str ''you'']"
  using fetch_top_words_fallback
    [of requests_get_german_empty "''de''" "[]" "Some 100" "''en''"
        "str ''the 100'' @ [0x0A] @ str ''you 90''"]
  by (simp add: requests_get_german_empty_def words_url_def base_url_def lines_read_def
      no_blank_line_def words_of_def blank_def first_token_def splitlines_def isspace_def
      is_linebreak_def slice_upto_def str_def)

text \<open>
  The Word Source raises to its caller, against claim C6 as it is stated: the exception
  of a request that fails, and \<open>IndexError\<close> on a response with an empty line.
\<close>

theorem fetch_top_words_raises_counterexample:
  "fetch_top_words requests_get_failing ''de'' ''en'' (Some 100) = Inl (Raised ''ConnectionError'') \<and>
   fetch_top_words requests_get_blank_line ''de'' ''en'' (Some 100) = Inl IndexError"
  by (simp add: fetch_top_words_def get_words_def requests_get_failing_def
      requests_get_blank_line_def splitlines_def split_def isspace_def is_linebreak_def
      slice_upto_def str_def)

subsection \<open>The Translator\<close>

text \<open>
  Claim C5, amended. For every word list and every language pair whose lexicon is
  constructed, the Translator returns a mapping and raises nothing; its keys are the
  words of the list, and each word is mapped, whatever the lookups of the other words
  do, to the first candidate of its own lookup, or to \<open>None\<close> when that lookup raises
  or gives no candidate.
\<close>

theorem get_translations_absorbs_lookup_failures:
  assumes "Word2word lang_to_learn native_lang = Inr learn2native"
  shows "\<exists>translations.
           get_translations Word2word top_words lang_to_learn native_lang = Inr translations \<and>
           fst ` set translations = set top_words \<and>
           (\<forall>word \<in> set top_words.
              map_of translations word =
                Some (case learn2native word of
                        Inl e \<Rightarrow> None
                      | Inr [] \<Rightarrow> None
                      | Inr (t # ts) \<Rightarrow> Some t))"
  using assms
  by (simp add: get_translations_def keys_translations_loop map_of_translations_loop
      first_candidate_def)

theorem get_translations_absorbs_lookup_failures_witness:
  "Word2word_without_auto ''de'' ''en'' = Inr lexicon_without_auto \<and>
   lexicon_without_auto (str ''auto'') = Inl (Raised ''KeyError'') \<and>
   get_translations Word2word_without_auto scenario_words ''de'' ''en''
     = Inr [(str ''haus'', Some (str ''house'')), (str ''auto'', None),
            (str ''buch'', Some (str ''book''))]"
  using get_translations_absorbs_lookup_failures
    [of Word2word_without_auto "''de''" "''en''" lexicon_without_auto scenario_words]
  by (simp add: Word2word_without_auto_def lexicon_without_auto_def get_translations_def
      scenario_words_def first_candidate_def str_def)

text \<open>
  When the lexicon of the language pair cannot be constructed the Translator raises, and
  no word is mapped: claim C5 as it is stated fails there.
\<close>

theorem lexicon_unavailable_counterexample:
  "get_translations Word2word_unavailable scenario_words ''de'' ''de'' = Inl (Raised ''Exception'')"
  by (simp add: get_translations_def Word2word_unavailable_def)

subsection \<open>The Meaning Enricher\<close>

text \<open>
  Claim C7, amended. For every word list, the Meaning Enricher returns a mapping whose
  keys are the words of the list and raises nothing; a word for which the translation
  service fails is mapped to the string \<open>[No translation]\<close>, every other word to
  what the service returned for it.
\<close>

theorem get_meanings_sentinel:
  "fst ` set (get_meanings GoogleTranslator words src_lang dest_lang) = set words \<and>
   (\<forall>word \<in> set words.
      map_of (get_meanings GoogleTranslator words src_lang dest_lang) word =
        Some (case GoogleTranslator src_lang dest_lang word of
                Inl e \<Rightarrow> str ''[No translation]''
              | Inr translated \<Rightarrow> translated))"
  by (simp add: get_meanings_def keys_meanings_loop map_of_meanings_loop no_translation_def
      split: sum.split)

theorem get_meanings_sentinel_witness:
  "str ''auto'' \<in> set [str ''haus'', str ''auto''] \<and>
   GoogleTranslator_house_only ''de'' ''en'' (str ''auto'') = Inl (Raised ''TranslationNotFound'') \<and>
   get_meanings GoogleTranslator_house_only [str ''haus'', str ''auto''] ''de'' ''en''
     = [(str ''haus'', str ''house''), (str ''auto'', str ''[No translation]'')]"
  using get_meanings_sentinel
    [of GoogleTranslator_house_only "[str ''haus'', str ''auto'']" "''de''" "''en''"]
  by (simp add: get_meanings_def GoogleTranslator_house_only_def no_translation_def str_def)

text \<open>
  The string stored on a failure is \<open>[No translation]\<close>, not the
  \<open>no translation available\<close> of claim C7.
\<close>

theorem sentinel_text_counterexample:
  "map_of (get_meanings GoogleTranslator_failing [str ''haus''] ''de'' ''en'') (str ''haus'')
     = Some (str ''[No translation]'') \<and>
   map_of (get_meanings GoogleTranslator_failing [str ''haus''] ''de'' ''en'') (str ''haus'')
     \<noteq> Some (str ''no translation available'')"
  by (simp add: get_meanings_def GoogleTranslator_failing_def no_translation_def str_def)

subsection \<open>Words whose lookup fails, and words fetched twice\<close>

lemma set_slice_upto: "set (slice_upto xs stop) \<subseteq> set xs"
  by (auto simp: slice_upto_def split: option.splits dest: in_set_takeD)

lemma set_top_matches: "set (top_matches d n) \<subseteq> set d"
  using set_slice_upto [of "sorted_matches d" "Some n"]
  by (simp add: top_matches_def sorted_matches_def set_sorted_reverse)

lemma distinct_keys_valid_translations:
  "distinct (map fst d) \<Longrightarrow> distinct (map fst (valid_translations d))"
  by (simp add: valid_translations_def distinct_map_filter)

lemma distinct_keys_get_similarity_scores:
  "distinct (map fst d) \<Longrightarrow> distinct (map fst (get_similarity_scores l u d))"
  by (simp add: map_fst_get_similarity_scores distinct_keys_valid_translations)

lemma distinct_keys_slice_upto:
  "distinct (map fst xs) \<Longrightarrow> distinct (map fst (slice_upto xs stop))"
  by (simp add: slice_upto_def take_map [symmetric] split: option.splits)

lemma distinct_keys_sorted_reverse:
  assumes "distinct (map fst xs)"
  shows "distinct (map fst (sorted_reverse f xs))"
proof -
  from assms have "distinct xs" and "inj_on fst (set xs)"
    by (simp_all add: distinct_map)
  then show ?thesis
    by (simp add: distinct_map distinct_sorted_reverse set_sorted_reverse)
qed

lemma distinct_keys_top_matches:
  "distinct (map fst d) \<Longrightarrow> distinct (map fst (top_matches d n))"
  by (simp add: top_matches_def sorted_matches_def distinct_keys_slice_upto
      distinct_keys_sorted_reverse)

lemma set_translations_loop:
  "(w, t) \<in> set (translations_loop f ws []) \<longleftrightarrow> w \<in> set ws \<and> t = first_candidate (f w)"
proof -
  have "distinct (map fst (translations_loop f ws []))"
    by (simp add: distinct_translations_loop)
  then have "(w, t) \<in> set (translations_loop f ws [])
               \<longleftrightarrow> map_of (translations_loop f ws []) w = Some t"
    by simp
  then show ?thesis
    by (auto simp: map_of_translations_loop split: if_splits)
qed

lemma keys_valid_translations_loop:
  "fst ` set (valid_translations (translations_loop f ws []))
     = {w \<in> set ws. first_candidate (f w) \<noteq> None}"
proof (intro set_eqI iffI)
  fix w
  assume "w \<in> fst ` set (valid_translations (translations_loop f ws []))"
  then obtain t where "(w, t) \<in> set (translations_loop f ws [])" and "t \<noteq> None"
    by (auto simp: valid_translations_def)
  then show "w \<in> {w \<in> set ws. first_candidate (f w) \<noteq> None}"
    by (simp add: set_translations_loop)
next
  fix w
  assume "w \<in> {w \<in> set ws. first_candidate (f w) \<noteq> None}"
  then have "(w, first_candidate (f w)) \<in> set (valid_translations (translations_loop f ws []))"
    by (simp add: valid_translations_def set_translations_loop)
  then show "w \<in> fst ` set (valid_translations (translations_loop f ws []))"
    by (rule rev_image_eqI) simp
qed

lemma length_translations_loop:
  "length (translations_loop f ws []) = card (set ws)"
proof -
  have "distinct (map fst (translations_loop f ws []))"
    by (simp add: distinct_translations_loop)
  then have "card (set (map fst (translations_loop f ws [])))
               = length (map fst (translations_loop f ws []))"
    by (rule distinct_card)
  then show ?thesis
    by (simp add: keys_translations_loop)
qed

lemma length_valid_translations_loop:
  "length (valid_translations (translations_loop f ws []))
     = card {w \<in> set ws. first_candidate (f w) \<noteq> None}"
proof -
  have "distinct (map fst (valid_translations (translations_loop f ws [])))"
    by (simp add: distinct_translations_loop distinct_keys_valid_translations)
  then have "card (set (map fst (valid_translations (translations_loop f ws []))))
               = length (map fst (valid_translations (translations_loop f ws [])))"
    by (rule distinct_card)
  then show ?thesis
    by (simp add: keys_valid_translations_loop)
qed

text \<open>
  Claim C8, amended. When the script has run, a word whose bilingual lookup fails (it
  raises, or gives no candidate) is in no structure downstream of the translations: it is
  not a key of the valid translations, it has no similarity score (none at all, so not a
  score of 0), and it is neither in the ranked list nor in the meanings. The translations
  themselves hold one entry for every distinct fetched word, the words whose lookup
  failed included, with \<open>None\<close>; the valid translations hold one entry for every
  distinct fetched word whose lookup succeeded. After one lookup failure in a batch of
  three distinct words this is 3 entries in the translations and 2 in the valid
  translations.
\<close>

theorem failed_lookup_excluded_downstream:
  assumes run: "build_flashcards requests_get Word2word GoogleTranslator lower unidecode
                  lang_to_learn native_lang word_count = Inr (Some fc)"
    and lexicon: "Word2word lang_to_learn native_lang = Inr learn2native"
    and failed: "first_candidate (learn2native word) = None"
  shows "word \<notin> fst ` set (valid_translations (fc_translations fc)) \<and>
         word \<notin> fst ` set (fc_similarity_scores fc) \<and>
         word \<notin> fst ` set (fc_top_matches fc) \<and>
         word \<notin> fst ` set (fc_selected_meanings fc) \<and>
         length (fc_translations fc) = card (set (fc_fetched_words fc)) \<and>
         length (valid_translations (fc_translations fc))
           = card {w \<in> set (fc_fetched_words fc). first_candidate (learn2native w) \<noteq> None}"
proof -
  define tm where "tm = translations_loop learn2native (fc_fetched_words fc) []"
  define scores where "scores = get_similarity_scores lower unidecode (valid_translations tm)"
  from run lexicon have parts:
    "fc_translations fc = tm" "fc_similarity_scores fc = scores"
    "fc_top_matches fc = top_matches scores word_count"
    "fc_selected_meanings fc
       = get_meanings GoogleTranslator (selected_words (top_matches scores word_count))
           lang_to_learn native_lang"
    by (auto simp: build_flashcards_def get_translations_def Let_def tm_def scores_def
        split: if_splits sum.splits)
  have valid: "word \<notin> fst ` set (valid_translations tm)"
    using failed by (simp add: tm_def keys_valid_translations_loop)
  have "map fst scores = map fst (valid_translations tm)"
    by (simp add: scores_def get_similarity_scores_valid map_fst_get_similarity_scores)
  then have "fst ` set scores = fst ` set (valid_translations tm)"
    by (simp only: set_map [symmetric])
  with valid have scored: "word \<notin> fst ` set scores"
    by simp
  with set_top_matches [of scores word_count]
  have top: "word \<notin> fst ` set (top_matches scores word_count)"
    by blast
  then have "word \<notin> fst ` set (get_meanings GoogleTranslator
               (selected_words (top_matches scores word_count)) lang_to_learn native_lang)"
    by (simp add: get_meanings_def keys_meanings_loop selected_words_def)
  with valid scored top show ?thesis
    by (simp add: parts tm_def length_translations_loop length_valid_translations_loop)
qed

lemmas run_simps = build_flashcards_def fetch_top_words_def get_words_def fallback_lang_def
  splitlines_def split_def isspace_def is_linebreak_def slice_upto_def get_translations_def
  first_candidate_def valid_translations_def ratio_def top_matches_def sorted_matches_def
  sorted_reverse_def selected_words_def get_meanings_def no_translation_def
  str_def lower_model_def lower_char_def unidecode_model_def
  unidecode_char_def normalized_word_def normalized_translation_def Let_def

theorem failed_lookup_excluded_downstream_witness:
  "build_flashcards requests_get_scenario Word2word_without_auto GoogleTranslator_house_only
      lower_model unidecode_model ''de'' ''en'' 10 = Inr (Some flashcards_without_auto) \<and>
   Word2word_without_auto ''de'' ''en'' = Inr lexicon_without_auto \<and>
   first_candidate (lexicon_without_auto (str ''auto'')) = None \<and>
   str ''auto'' \<notin> fst ` set (fc_similarity_scores flashcards_without_auto) \<and>
   str ''auto'' \<notin> fst ` set (fc_top_matches flashcards_without_auto) \<and>
   str ''auto'' \<notin> fst ` set (fc_selected_meanings flashcards_without_auto) \<and>
   length (fc_translations flashcards_without_auto) = 3 \<and>
   length (valid_translations (fc_translations flashcards_without_auto)) = 2"
proof -
  have run: "build_flashcards requests_get_scenario Word2word_without_auto
      GoogleTranslator_house_only lower_model unidecode_model ''de'' ''en'' 10
        = Inr (Some flashcards_without_auto)"
    by (simp add: run_simps requests_get_scenario_def Word2word_without_auto_def
        lexicon_without_auto_def GoogleTranslator_house_only_def flashcards_without_auto_def)
  have lexicon: "Word2word_without_auto ''de'' ''en'' = Inr lexicon_without_auto"
    by (simp add: Word2word_without_auto_def)
  have failed: "first_candidate (lexicon_without_auto (str ''auto'')) = None"
    by (simp add: lexicon_without_auto_def first_candidate_def str_def)
  have "length (fc_translations flashcards_without_auto) = 3"
    and "length (valid_translations (fc_translations flashcards_without_auto)) = 2"
    by (simp_all add: flashcards_without_auto_def valid_translations_def)
  with failed_lookup_excluded_downstream [OF run lexicon failed] run lexicon failed
  show ?thesis
    by blast
qed

text \<open>
  With three words and one failed lookup the translations have 3 entries, not the 2 of
  claim C8; it is the valid translations that have 2.
\<close>

theorem three_entries_counterexample:
  "get_translations Word2word_without_auto scenario_words ''de'' ''en''
     = Inr [(str ''haus'', Some (str ''house'')), (str ''auto'', None),
            (str ''buch'', Some (str ''book''))] \<and>
   length (translations_loop lexicon_without_auto scenario_words []) = 3 \<and>
   length (valid_translations (translations_loop lexicon_without_auto scenario_words [])) = 2"
  by (simp add: get_translations_def Word2word_without_auto_def lexicon_without_auto_def
      scenario_words_def first_candidate_def valid_translations_def str_def)

text \<open>
  Claim C10. Whatever the fetched list repeats, each word is a key of the translations
  once, and the translations have as many entries as the list has distinct words; each
  word is a key of the similarity scores once, and is in the ranked list once. An
  assignment of the loop replaces what the mapping held for the word before: for every
  lookup and every mapping \<open>earlier\<close> the loop starts from, a word of the list ends
  mapped to the result of its lookup in this loop.
\<close>

theorem each_word_once:
  assumes "get_translations Word2word top_words lang_to_learn native_lang = Inr translations"
  shows "distinct (map fst translations) \<and>
         length translations = card (set top_words) \<and>
         distinct (map fst (get_similarity_scores lower unidecode (valid_translations translations))) \<and>
         distinct (map fst (top_matches
            (get_similarity_scores lower unidecode (valid_translations translations)) word_count)) \<and>
         (\<forall>learn2native earlier. \<forall>word \<in> set top_words.
            map_of (translations_loop learn2native top_words earlier) word
              = Some (first_candidate (learn2native word)))"
proof -
  from assms obtain learn2native
    where tm: "translations = translations_loop learn2native top_words []"
    by (auto simp: get_translations_def split: sum.splits)
  have d: "distinct (map fst translations)"
    by (simp add: tm distinct_translations_loop)
  then have "distinct (map fst (get_similarity_scores lower unidecode (valid_translations translations)))"
    by (simp add: distinct_keys_get_similarity_scores distinct_keys_valid_translations)
  then have "distinct (map fst (top_matches
      (get_similarity_scores lower unidecode (valid_translations translations)) word_count))"
    by (rule distinct_keys_top_matches)
  with d show ?thesis
    by (simp add: tm length_translations_loop map_of_translations_loop
        distinct_keys_get_similarity_scores distinct_keys_valid_translations distinct_translations_loop)
qed

theorem each_word_once_witness:
  "get_translations Word2word_scenario [str ''haus'', str ''auto'', str ''haus''] ''de'' ''en''
     = Inr [(str ''haus'', Some (str ''house'')), (str ''auto'', Some (str ''car''))] \<and>
   str ''haus'' \<in> set [str ''haus'', str ''auto'', str ''haus''] \<and>
   map_of (translations_loop scenario_lexicon [str ''haus'', str ''auto'', str ''haus'']
             [(str ''haus'', None)]) (str ''haus'') = Some (Some (str ''house'')) \<and>
   distinct (map fst (top_matches
      (get_similarity_scores lower_model unidecode_model
         (valid_translations [(str ''haus'', Some (str ''house'')), (str ''auto'', Some (str ''car''))]))
      10))"
proof -
  have run: "get_translations Word2word_scenario [str ''haus'', str ''auto'', str ''haus''] ''de'' ''en''
     = Inr [(str ''haus'', Some (str ''house'')), (str ''auto'', Some (str ''car''))]"
    by (simp add: get_translations_def Word2word_scenario_def scenario_lexicon_def
        first_candidate_def str_def)
  have twice: "str ''haus'' \<in> set [str ''haus'', str ''auto'', str ''haus'']"
    by simp
  note once = each_word_once [OF run, of lower_model unidecode_model 10]
  from once twice
  have "map_of (translations_loop scenario_lexicon [str ''haus'', str ''auto'', str ''haus'']
          [(str ''haus'', None)]) (str ''haus'') = Some (first_candidate (scenario_lexicon (str ''haus'')))"
    by blast
  then have "map_of (translations_loop scenario_lexicon [str ''haus'', str ''auto'', str ''haus'']
          [(str ''haus'', None)]) (str ''haus'') = Some (Some (str ''house''))"
    by (simp add: scenario_lexicon_def first_candidate_def)
  with once run twice show ?thesis
    by blast
qed

subsection \<open>An empty word list\<close>

text \<open>
  When the Word Source returns an empty list and the lexicon of the language pair is
  constructed, the script runs to its end and every structure it builds is empty, the
  ranked list included.
\<close>

theorem empty_word_list_empty_ranking:
  assumes "lang_to_learn \<noteq> []" and "native_lang \<noteq> []"
    and "fetch_top_words requests_get lang_to_learn fallback_lang (Some 100) = Inr []"
    and "Word2word lang_to_learn native_lang = Inr learn2native"
  shows "build_flashcards requests_get Word2word GoogleTranslator lower unidecode
           lang_to_learn native_lang word_count
         = Inr (Some \<lparr>fc_fetched_words = [], fc_translations = [], fc_similarity_scores = [],
                       fc_top_matches = [], fc_selected_meanings = []\<rparr>)"
  using assms
  by (simp add: build_flashcards_def get_translations_def valid_translations_def
      top_matches_def sorted_matches_def sorted_reverse_def slice_upto_def selected_words_def
      get_meanings_def)

theorem empty_word_list_empty_ranking_witness:
  "''de'' \<noteq> [] \<and> ''en'' \<noteq> [] \<and>
   fetch_top_words requests_get_empty ''de'' fallback_lang (Some 100) = Inr [] \<and>
   Word2word_scenario ''de'' ''en'' = Inr scenario_lexicon \<and>
   build_flashcards requests_get_empty Word2word_scenario GoogleTranslator_failing
       lower_model unidecode_model ''de'' ''en'' 10
     = Inr (Some \<lparr>fc_fetched_words = [], fc_translations = [], fc_similarity_scores = [],
                   fc_top_matches = [], fc_selected_meanings = []\<rparr>)"
proof -
  have codes: "''de'' \<noteq> []" "''en'' \<noteq> []"
    by simp_all
  have fetched: "fetch_top_words requests_get_empty ''de'' fallback_lang (Some 100) = Inr []"
    by (simp add: fetch_top_words_def get_words_def requests_get_empty_def splitlines_def
        slice_upto_def)
  have lexicon: "Word2word_scenario ''de'' ''en'' = Inr scenario_lexicon"
    by (simp add: Word2word_scenario_def)
  from empty_word_list_empty_ranking
         [where lang_to_learn = "''de''" and native_lang = "''en''"
            and requests_get = requests_get_empty and Word2word = Word2word_scenario
            and learn2native = scenario_lexicon and GoogleTranslator = GoogleTranslator_failing
            and lower = lower_model and unidecode = unidecode_model and word_count = 10,
          OF codes fetched lexicon]
       fetched lexicon
  show ?thesis
    by simp
qed

end
